theory Spec2Isabelle
  imports
    Main
    "HOL-Library.Sublist"
    "HOL-Library.Multiset"
    "HOL-Library.Char_ord"
    "HOL-Library.List_Lexorder"
begin

section \<open>Python library functions used by rust2rpm\<close>

text \<open>
  Strings are byte lists. The functions of this section are the ones of Python's
  standard library that the two command line tools call on the paths and on the output
  of the dependency generator: \<^verbatim>\<open>str.split\<close> with a one-character separator,
  \<^verbatim>\<open>str.join\<close>, \<^verbatim>\<open>str.startswith\<close> (this is \<^const>\<open>prefix\<close>),
  and \<^verbatim>\<open>posixpath.join\<close>, \<^verbatim>\<open>posixpath.normpath\<close>,
  \<^verbatim>\<open>posixpath.abspath\<close>.
\<close>

definition newline :: char where
  "newline = CHR 0x0A"

text \<open>\<^verbatim>\<open>s.split(c)\<close>: one piece more than there are separators, so never
  empty: the first case below does not arise.\<close>

fun split_on :: "char \<Rightarrow> string \<Rightarrow> string list" where
  "split_on c [] = [[]]"
| "split_on c (x # xs) =
     (case split_on c xs of
        [] \<Rightarrow> [[x]]
      | piece # pieces \<Rightarrow> if x = c then [] # piece # pieces else (x # piece) # pieces)"

text \<open>\<^verbatim>\<open>c.join(pieces)\<close>.\<close>

fun join_with :: "string \<Rightarrow> string list \<Rightarrow> string" where
  "join_with c [] = []"
| "join_with c [p] = p"
| "join_with c (p # q # ps) = p @ c @ join_with c (q # ps)"

text \<open>
  \<^verbatim>\<open>posixpath.join(a, b)\<close>: an absolute second part replaces the first one; otherwise
  the parts are glued with one slash, unless the first is empty or ends with a slash.
\<close>

definition path_join :: "string \<Rightarrow> string \<Rightarrow> string" where
  "path_join a b =
     (if prefix ''/'' b then b
      else if a = [] \<or> suffix ''/'' a then a @ b
      else a @ ''/'' @ b)"

text \<open>
  The loop of \<^verbatim>\<open>posixpath.normpath\<close> over the components: empty components and
  \<^verbatim>\<open>.\<close> are dropped; \<^verbatim>\<open>..\<close> removes the component before it, is dropped
  at the root, and is kept at the start of a relative path or after another kept
  \<^verbatim>\<open>..\<close>.
\<close>

fun norm_comps :: "nat \<Rightarrow> string list \<Rightarrow> string list \<Rightarrow> string list" where
  "norm_comps initial_slashes new_comps [] = new_comps"
| "norm_comps initial_slashes new_comps (part # comps) =
     (if part = [] \<or> part = ''.'' then norm_comps initial_slashes new_comps comps
      else if part \<noteq> ''..'' \<or> (initial_slashes = 0 \<and> new_comps = [])
                \<or> (new_comps \<noteq> [] \<and> last new_comps = ''..'')
        then norm_comps initial_slashes (new_comps @ [part]) comps
      else if new_comps \<noteq> [] then norm_comps initial_slashes (butlast new_comps) comps
      else norm_comps initial_slashes new_comps comps)"

definition normpath :: "string \<Rightarrow> string" where
  "normpath path =
     (if path = [] then ''.''
      else
        let initial_slashes =
              (if prefix ''/'' path
               then (if prefix ''//'' path \<and> \<not> prefix ''///'' path then 2 else 1)
               else (0::nat));
            comps = norm_comps initial_slashes [] (split_on CHR ''/'' path);
            joined = replicate initial_slashes CHR ''/'' @ join_with ''/'' comps
        in if joined = [] then ''.'' else joined)"

text \<open>\<^verbatim>\<open>posixpath.abspath\<close>, with the current directory as a parameter.\<close>

definition abspath :: "string \<Rightarrow> string \<Rightarrow> string" where
  "abspath cwd path = normpath (if prefix ''/'' path then path else path_join cwd path)"

section \<open>Errors\<close>

text \<open>
  The exceptions the modelled code raises. \<open>Raised\<close> stands for an exception that
  comes out of a collaborator which is not part of the modelled files (the HTTP client,
  the archive reader, the metadata parser), with its message.
\<close>

datatype error =
    Exception string
  | ValueError string
  | AssertionError
  | CalledProcessError int
  | Raised string


section \<open>State and control\<close>

text \<open>
  What a run of either tool changes: the files below the temporary directory, the calls
  made to the dependency generator (its argument vectors, in order), the files stored by
  the download, the text printed and the spec and patch files written.
\<close>

record sys =
  tmp_files :: "string list"
  depgen_calls :: "string list list"
  downloaded :: "(string \<times> string) list"
  printed :: "string list"
  written :: "(string \<times> string) list"

type_synonym 'a run = "sys \<Rightarrow> (error + 'a) \<times> sys"

definition ret :: "'a \<Rightarrow> 'a run" where
  "ret a s = (Inr a, s)"

definition raise :: "error \<Rightarrow> 'a run" where
  "raise e s = (Inl e, s)"

text \<open>The result of a collaborator that either raises or returns, without an effect.\<close>

definition lift :: "error + 'a \<Rightarrow> 'a run" where
  "lift r s = (r, s)"

text \<open>Sequencing: an exception skips the statements that follow.\<close>

definition then_do :: "'a run \<Rightarrow> ('a \<Rightarrow> 'b run) \<Rightarrow> 'b run" where
  "then_do m f s = (case m s of (Inl e, s') \<Rightarrow> (Inl e, s') | (Inr a, s') \<Rightarrow> f a s')"

text \<open>
  \<^verbatim>\<open>with tempfile.TemporaryDirectory() as tmpdir\<close>: the directory is removed when the
  block is left, by an exception or not.
\<close>

definition with_tmpdir :: "'a run \<Rightarrow> 'a run" where
  "with_tmpdir body s = (case body s of (r, s') \<Rightarrow> (r, s'\<lparr>tmp_files := []\<rparr>))"

definition print :: "string \<Rightarrow> unit run" where
  "print text s = (Inr (), s\<lparr>printed := printed s @ [text @ [newline]]\<rparr>)"

definition assert :: "bool \<Rightarrow> unit run" where
  "assert b = (if b then ret () else raise AssertionError)"

section \<open>Unpacking the crate archive\<close>

text \<open>
  Both tools unpack the crate in the same way:
  \<^verbatim>\<open>
  target_dir = "{}/".format(tmpdir)
  with tarfile.open(cratef, "r") as archive:
      for n in archive.getnames():
          if not os.path.abspath(os.path.join(target_dir, n)).startswith(target_dir):
              raise Exception("Unsafe filenames!")
      archive.extractall(target_dir)
  \<close>
\<close>

definition target_dir_of :: "string \<Rightarrow> string" where
  "target_dir_of tmpdir = tmpdir @ ''/''"

definition unsafe_name :: "string \<Rightarrow> string \<Rightarrow> string \<Rightarrow> bool" where
  "unsafe_name cwd target_dir n =
     (\<not> prefix target_dir (abspath cwd (path_join target_dir n)))"

fun check_names :: "string \<Rightarrow> string \<Rightarrow> string list \<Rightarrow> error + unit" where
  "check_names cwd target_dir [] = Inr ()"
| "check_names cwd target_dir (n # ns) =
     (if unsafe_name cwd target_dir n then Inl (Exception ''Unsafe filenames!'')
      else check_names cwd target_dir ns)"

definition extractall :: "string \<Rightarrow> string list \<Rightarrow> unit run" where
  "extractall target_dir names s =
     (Inr (), s\<lparr>tmp_files := tmp_files s @ map (path_join target_dir) names\<rparr>)"

definition unpack :: "string \<Rightarrow> string \<Rightarrow> string list \<Rightarrow> unit run" where
  "unpack cwd tmpdir names =
     then_do (lift (check_names cwd (target_dir_of tmpdir) names))
       (\<lambda>_. extractall (target_dir_of tmpdir) names)"

section \<open>The dependency generator as a subprocess\<close>

text \<open>
  \<^verbatim>\<open>
  def run_depgen(*params):
      cmd = [sys.executable, cargodeps.__file__, *params]
      out = subprocess.check_output(cmd, universal_newlines=True)
      return out.split("\n")[:-1]
  \<close>
  The generator itself (the module \<^verbatim>\<open>cargodeps\<close>) is not among the modelled files:
  it is a parameter, a function from the arguments to the finished process.
  \<^verbatim>\<open>check_output\<close> raises when the return code is not zero. The test suite's
  \<^verbatim>\<open>run\<close> is the same function, on \<^verbatim>\<open>cargo-deps.py\<close>.
\<close>

record completed =
  returncode :: int
  stdout :: string

definition check_output :: "completed \<Rightarrow> error + string" where
  "check_output p =
     (if returncode p \<noteq> 0 then Inl (CalledProcessError (returncode p)) else Inr (stdout p))"

definition output_lines :: "string \<Rightarrow> string list" where
  "output_lines out = butlast (split_on newline out)"

definition run :: "(string list \<Rightarrow> completed) \<Rightarrow> string list \<Rightarrow> error + string list" where
  "run depgen params =
     (case check_output (depgen params) of
        Inl e \<Rightarrow> Inl e
      | Inr out \<Rightarrow> Inr (output_lines out))"

definition run_depgen :: "(string list \<Rightarrow> completed) \<Rightarrow> string list \<Rightarrow> string list run" where
  "run_depgen cargodeps params s =
     (run cargodeps params, s\<lparr>depgen_calls := depgen_calls s @ [params]\<rparr>)"

section \<open>The standalone tool\<close>

datatype standalone_target = Epel7 | Fedora26

record deplists =
  buildrequires :: "string list"
  buildconflicts :: "string list"
  testrequires :: "string list"
  testconflicts :: "string list"
  provides :: "string list"
  requires :: "string list"
  conflicts :: "string list"

text \<open>
  \<^verbatim>\<open>
  buildrequires = run_depgen("--build-requires", toml)
  buildconflicts = run_depgen("--build-conflicts", toml)
  testrequires = run_depgen("--test-requires", toml)
  testconflicts = run_depgen("--test-conflicts", toml)
  if args.target == "fedora-26":
      # Those are automatically added by dependency generator
      provides = []
      requires = []
      conflicts = []
  else:
      provides = run_depgen("--provides", toml)
      requires = run_depgen("--requires", toml)
      conflicts = run_depgen("--conflicts", toml)
  \<close>
\<close>

definition depgen_lists :: "standalone_target \<Rightarrow> (string list \<Rightarrow> completed) \<Rightarrow> string \<Rightarrow> deplists run" where
  "depgen_lists tgt cargodeps toml =
     then_do (run_depgen cargodeps [''--build-requires'', toml]) (\<lambda>br.
     then_do (run_depgen cargodeps [''--build-conflicts'', toml]) (\<lambda>bc.
     then_do (run_depgen cargodeps [''--test-requires'', toml]) (\<lambda>tr.
     then_do (run_depgen cargodeps [''--test-conflicts'', toml]) (\<lambda>tc.
     if tgt = Fedora26 then
       ret \<lparr>buildrequires = br, buildconflicts = bc, testrequires = tr, testconflicts = tc,
            provides = [], requires = [], conflicts = []\<rparr>
     else
       then_do (run_depgen cargodeps [''--provides'', toml]) (\<lambda>prov.
       then_do (run_depgen cargodeps [''--requires'', toml]) (\<lambda>req.
       then_do (run_depgen cargodeps [''--conflicts'', toml]) (\<lambda>con.
       ret \<lparr>buildrequires = br, buildconflicts = bc, testrequires = tr, testconflicts = tc,
            provides = prov, requires = req, conflicts = con\<rparr>)))))))"

text \<open>
  The template of the standalone tool, rendered with \<^verbatim>\<open>trim_blocks\<close> and
  \<^verbatim>\<open>lstrip_blocks\<close>: a line that holds only a block tag leaves nothing, and the body
  of a loop is one line for each element. The rendered text is given as its lines.
\<close>

definition build_deps_lines :: "deplists \<Rightarrow> string list" where
  "build_deps_lines l =
     map (\<lambda>br. ''BuildRequires:  '' @ br) (buildrequires l)
     @ map (\<lambda>bc. ''BuildConflicts: '' @ bc) (buildconflicts l)
     @ (if length (testrequires l) > 0 then
          [''%if %{with check}'']
          @ map (\<lambda>tr. ''BuildRequires:  '' @ tr) (testrequires l)
          @ map (\<lambda>tc. ''BuildConflicts: '' @ tc) (testconflicts l)
          @ [''%endif'']
        else [])"

definition devel_deps_lines :: "deplists \<Rightarrow> string list" where
  "devel_deps_lines l =
     map (\<lambda>prov. ''Provides:       '' @ prov) (provides l)
     @ map (\<lambda>req. ''Requires:       '' @ req) (requires l)
     @ map (\<lambda>con. ''Conflicts:      '' @ con) (conflicts l)"

definition standalone_TEMPLATE :: "string \<Rightarrow> string \<Rightarrow> deplists \<Rightarrow> string list" where
  "standalone_TEMPLATE crate version l =
     [''# Generated by rust2rpm'',
      ''%bcond_without check'',
      [],
      ''%global crate '' @ crate,
      [],
      ''Name:           rust-%{crate}'',
      ''Version:        '' @ version,
      ''Release:        1%{?dist}'',
      ''Summary:        # FIXME'',
      [],
      ''License:        # FIXME'',
      ''URL:            https://crates.io/crates/'' @ crate,
      ''Source0:        https://crates.io/api/v1/crates/%{crate}/%{version}/download#/%{crate}-%{version}.crate'',
      [],
      ''ExclusiveArch:  %{rust_arches}'',
      [],
      ''BuildRequires:  rust'',
      ''BuildRequires:  cargo'']
     @ build_deps_lines l
     @ [[],
      ''%description'',
      ''%{summary}.'',
      [],
      ''%package        devel'',
      ''Summary:        %{summary}'',
      ''BuildArch:      noarch'']
     @ devel_deps_lines l
     @ [[],
      ''%description    devel'',
      ''%{summary}.'',
      [],
      ''%prep'',
      ''%autosetup -n %{crate}-%{version}'',
      ''%cargo_prep'',
      [],
      ''%install'',
      ''%cargo_install_crate %{crate}-%{version}'',
      [],
      ''%if %{with check}'',
      ''%check'',
      ''%cargo_test'',
      ''%endif'',
      [],
      ''%files devel'',
      ''%license # FIXME'',
      ''%{cargo_registry}/%{crate}-%{version}/'',
      [],
      ''%changelog'']"

definition standalone_render :: "string \<Rightarrow> string \<Rightarrow> deplists \<Rightarrow> string" where
  "standalone_render crate version l = join_with [newline] (standalone_TEMPLATE crate version l)"

text \<open>
  The collaborators of both tools: the answer of crates.io to the query for the latest
  version, whether the crate file is there already, the body of the download, the member
  names of the archive, whether the unpacked manifest is a file, the current directory
  and the name of the temporary directory. The standalone tool has the generator too.
\<close>

record world =
  latest_version :: "error + string"
  cratef_isfile :: bool
  download :: "error + string"
  archive_names :: "error + string list"
  toml_isfile :: bool
  cwd :: string
  tmpdir :: string

record standalone_world = world +
  cargodeps :: "string list \<Rightarrow> completed"

record standalone_args =
  sa_target :: standalone_target
  sa_crate :: string
  sa_version :: "string option"

definition store :: "string \<Rightarrow> string \<Rightarrow> unit run" where
  "store path body s = (Inr (), s\<lparr>downloaded := downloaded s @ [(path, body)]\<rparr>)"

definition toml_path :: "string \<Rightarrow> string \<Rightarrow> string \<Rightarrow> string" where
  "toml_path tmp crate version = tmp @ ''/'' @ crate @ ''-'' @ version @ ''/Cargo.toml''"

text \<open>The body of the standalone tool, from the parsed arguments on.\<close>

definition standalone_main :: "standalone_world \<Rightarrow> standalone_args \<Rightarrow> unit run" where
  "standalone_main w a =
     then_do (case sa_version a of None \<Rightarrow> lift (latest_version w) | Some v \<Rightarrow> ret v)
       (\<lambda>version.
     then_do (if \<not> cratef_isfile w
              then then_do (lift (download w))
                     (store (sa_crate a @ ''-'' @ version @ ''.crate''))
              else ret ()) (\<lambda>_.
     then_do (with_tmpdir (
         then_do (lift (archive_names w)) (\<lambda>names.
         then_do (unpack (cwd w) (tmpdir w) names) (\<lambda>_.
         then_do (assert (toml_isfile w)) (\<lambda>_.
         depgen_lists (sa_target a) (cargodeps w)
           (toml_path (tmpdir w) (sa_crate a) version)))))) (\<lambda>l.
     print (standalone_render (sa_crate a) version l))))"

section \<open>The packaged tool\<close>

subsection \<open>Metadata\<close>

text \<open>
  The class \<^verbatim>\<open>Metadata\<close> and the objects in its lists are defined outside the modelled
  files. The template reads these attributes of them: of a dependency its
  \<^verbatim>\<open>name\<close> (the sort key) and its rendering \<^verbatim>\<open>str(req)\<close>; of a target its
  \<^verbatim>\<open>kind\<close> and its \<^verbatim>\<open>name\<close>.
\<close>

record dependency =
  dep_name :: string
  dep_str :: string

record crate_target =
  kind :: string
  tgt_name :: string

record metadata =
  md_name :: string
  md_version :: string
  md_description :: "string option"
  md_license :: "string option"
  md_license_file :: "string option"
  md_targets :: "crate_target list"
  md_requires :: "dependency list"
  md_build_requires :: "dependency list"
  md_test_requires :: "dependency list"
  md_provides :: "dependency list"

subsection \<open>Filters of the template language\<close>

text \<open>
  \<^verbatim>\<open>sort(attribute="name")\<close> sorts by the attribute with Python's stable
  \<^verbatim>\<open>sorted\<close>, and, not being asked for case sensitivity, compares the lower-cased
  names. \<^verbatim>\<open>trim\<close> is \<^verbatim>\<open>str.strip\<close>. Letters and white space are the ASCII ones.
\<close>

definition lower_char :: "char \<Rightarrow> char" where
  "lower_char c =
     (if (65::nat) \<le> of_char c \<and> of_char c \<le> (90::nat)
      then char_of (of_char c + (32::nat)) else c)"

definition lower :: "string \<Rightarrow> string" where
  "lower s = map lower_char s"

definition sort_by_name :: "dependency list \<Rightarrow> dependency list" where
  "sort_by_name reqs = sort_key (\<lambda>req. lower (dep_name req)) reqs"

definition isspace :: "char \<Rightarrow> bool" where
  "isspace c = ((9::nat) \<le> of_char c \<and> of_char c \<le> (13::nat)
                \<or> (28::nat) \<le> of_char c \<and> of_char c \<le> (32::nat))"

definition trim :: "string \<Rightarrow> string" where
  "trim s = rev (dropWhile isspace (rev (dropWhile isspace s)))"

text \<open>A value that is \<^verbatim>\<open>None\<close> is printed as the word \<^verbatim>\<open>None\<close>: the filter
  \<^verbatim>\<open>default\<close> replaces an undefined value only.\<close>

definition str_or_None :: "string option \<Rightarrow> string" where
  "str_or_None v = (case v of None \<Rightarrow> ''None'' | Some s \<Rightarrow> s)"

subsection \<open>The shape of the package and the target\<close>

text \<open>
  \<^verbatim>\<open>
  bins = [tgt for tgt in metadata.targets if tgt.kind == "bin"]
  libs = [tgt for tgt in metadata.targets if tgt.kind in ("lib", "proc-macro")]
  is_bin = len(bins) > 0
  is_lib = len(libs) > 0
  if is_bin:
      spec_basename = args.crate
      kwargs["include_debug"] = True
      kwargs["name"] = "%{crate}"
      kwargs["include_main"] = True
      kwargs["bins"] = bins
      if not is_lib:
          kwargs["name_devel"] = None
      else:
          kwargs["name_devel"] = "-n rust-%{crate}-devel"
  elif is_lib:
      spec_basename = "rust-{}".format(args.crate)
      kwargs["include_debug"] = False
      kwargs["name"] = "rust-%{crate}"
      kwargs["include_main"] = False
      kwargs["name_devel"] = "   devel"
  else:
      raise ValueError("No bins and no libs")
  \<close>
  The library-only branch passes no \<^verbatim>\<open>bins\<close>; the template reads them under
  \<^verbatim>\<open>include_main\<close> only, and the list is empty there.
\<close>

record shape =
  spec_basename :: string
  include_debug :: bool
  kw_name :: string
  include_main :: bool
  bins :: "crate_target list"
  name_devel :: "string option"

definition bins_of :: "crate_target list \<Rightarrow> crate_target list" where
  "bins_of targets = filter (\<lambda>tgt. kind tgt = ''bin'') targets"

definition libs_of :: "crate_target list \<Rightarrow> crate_target list" where
  "libs_of targets = filter (\<lambda>tgt. kind tgt = ''lib'' \<or> kind tgt = ''proc-macro'') targets"

definition packaging :: "string \<Rightarrow> crate_target list \<Rightarrow> error + shape" where
  "packaging crate targets =
     (let is_bin = length (bins_of targets) > 0;
          is_lib = length (libs_of targets) > 0
      in if is_bin then
           Inr \<lparr>spec_basename = crate, include_debug = True, kw_name = ''%{crate}'',
                include_main = True, bins = bins_of targets,
                name_devel = (if \<not> is_lib then None else Some ''-n rust-%{crate}-devel'')\<rparr>
         else if is_lib then
           Inr \<lparr>spec_basename = ''rust-'' @ crate, include_debug = False,
                kw_name = ''rust-%{crate}'', include_main = False, bins = bins_of targets,
                name_devel = Some ''   devel''\<rparr>
         else Inl (ValueError ''No bins and no libs''))"

text \<open>
  \<^verbatim>\<open>
  if args.target == "fedora":
      kwargs["include_build_requires"] = True
      kwargs["include_provides"] = False
      kwargs["include_requires"] = False
  elif args.target == "plain":
      kwargs["include_build_requires"] = True
      kwargs["include_provides"] = True
      kwargs["include_requires"] = True
  \<close>
  The argument parser admits these two targets only.
\<close>

datatype target = Plain | Fedora

record flags =
  include_build_requires :: bool
  include_provides :: bool
  include_requires :: bool

definition target_flags :: "target \<Rightarrow> flags" where
  "target_flags tgt =
     (if tgt = Fedora then
        \<lparr>include_build_requires = True, include_provides = False, include_requires = False\<rparr>
      else
        \<lparr>include_build_requires = True, include_provides = True, include_requires = True\<rparr>)"

subsection \<open>The template\<close>

text \<open>A list of requirements under its heading, as the template writes it in four places.\<close>

definition reqs_block :: "string \<Rightarrow> string \<Rightarrow> dependency list \<Rightarrow> string list" where
  "reqs_block heading tag reqs =
     (if length reqs > 0
      then heading # map (\<lambda>req. tag @ dep_str req) (sort_by_name reqs)
      else [])"

definition build_requires_lines :: "flags \<Rightarrow> metadata \<Rightarrow> string list" where
  "build_requires_lines fl md =
     (if include_build_requires fl then
        reqs_block ''# [dependencies]'' ''BuildRequires:  '' (md_requires md)
        @ reqs_block ''# [build-dependencies]'' ''BuildRequires:  '' (md_build_requires md)
        @ (if length (md_test_requires md) > 0 then
             [''%if %{with check}'']
             @ reqs_block ''# [dev-dependencies]'' ''BuildRequires:  '' (md_test_requires md)
             @ [''%endif'']
           else [])
      else [])"

definition devel_provides_lines :: "flags \<Rightarrow> metadata \<Rightarrow> string list" where
  "devel_provides_lines fl md =
     (if include_provides fl
      then map (\<lambda>prv. ''Provides:       '' @ dep_str prv) (md_provides md)
      else [])"

definition devel_requires_lines :: "flags \<Rightarrow> metadata \<Rightarrow> string list" where
  "devel_requires_lines fl md =
     (if include_requires fl then
        reqs_block ''# [dependencies]'' ''Requires:       '' (md_requires md)
        @ reqs_block ''# [build-dependencies]'' ''Requires:       '' (md_build_requires md)
      else [])"

definition license_lines :: "metadata \<Rightarrow> string list" where
  "license_lines md =
     (case md_license_file md of None \<Rightarrow> [] | Some f \<Rightarrow> [''%license '' @ f])"

definition devel_package_lines ::
  "(string \<Rightarrow> string) \<Rightarrow> shape \<Rightarrow> flags \<Rightarrow> metadata \<Rightarrow> string list" where
  "devel_package_lines wordwrap sh fl md =
     (case name_devel sh of
        None \<Rightarrow> []
      | Some nd \<Rightarrow>
          [''%package     '' @ nd,
           ''Summary:        %{summary}'',
           ''BuildArch:      noarch'']
          @ devel_provides_lines fl md
          @ devel_requires_lines fl md
          @ [[],
             ''%description '' @ nd,
             (case md_description md of
                None \<Rightarrow> ''%{summary}.''
              | Some d \<Rightarrow> trim (wordwrap d)),
             [],
             ''This package contains library source intended for building other packages'',
             ''which use %{crate} from crates.io.'',
             []])"

definition files_lines :: "shape \<Rightarrow> metadata \<Rightarrow> string list" where
  "files_lines sh md =
     (if include_main sh then
        [''%files''] @ license_lines md
        @ map (\<lambda>b. ''%{_bindir}/'' @ tgt_name b) (bins sh)
        @ [[]]
      else [])
     @ (case name_devel sh of
          None \<Rightarrow> []
        | Some nd \<Rightarrow>
            [''%files       '' @ nd] @ license_lines md
            @ [''%{cargo_registry}/%{crate}-%{version}/'', []])"

definition TEMPLATE ::
  "(string \<Rightarrow> string) \<Rightarrow> metadata \<Rightarrow> string option \<Rightarrow> shape \<Rightarrow> flags
    \<Rightarrow> string \<Rightarrow> string option \<Rightarrow> string list" where
  "TEMPLATE wordwrap md patch_file sh fl date packager =
     [''# Generated by rust2rpm'',
      ''%bcond_without check'']
     @ (if \<not> include_debug sh then [''%global debug_package %{nil}''] else [])
     @ [[],
        ''%global crate '' @ md_name md,
        [],
        ''Name:           '' @ kw_name sh,
        ''Version:        '' @ md_version md,
        ''Release:        1%{?dist}'',
        (case md_description md of
           None \<Rightarrow> ''Summary:        # FIXME''
         | Some d \<Rightarrow> ''Summary:        '' @ trim (join_with '' '' (split_on newline d))),
        [],
        ''License:        '' @ str_or_None (md_license md),
        ''URL:            https://crates.io/crates/'' @ md_name md,
        ''Source0:        https://crates.io/api/v1/crates/%{crate}/%{version}/download#/%{crate}-%{version}.crate'']
     @ (case patch_file of
          None \<Rightarrow> []
        | Some p \<Rightarrow> [''# Initial patched metadata'', ''Patch0:         '' @ p])
     @ [[],
        ''ExclusiveArch:  %{rust_arches}'',
        [],
        ''BuildRequires:  rust'',
        ''BuildRequires:  cargo'']
     @ build_requires_lines fl md
     @ [[],
        ''%description'',
        ''%{summary}.'',
        []]
     @ devel_package_lines wordwrap sh fl md
     @ [''%prep'',
        ''%autosetup -n %{crate}-%{version} -p1'',
        ''%cargo_prep'',
        [],
        ''%build'',
        ''%cargo_build'',
        [],
        ''%install'',
        ''%cargo_install'',
        [],
        ''%if %{with check}'',
        ''%check'',
        ''%cargo_test'',
        ''%endif'',
        []]
     @ files_lines sh md
     @ [''%changelog'',
        ''* '' @ date @ '' '' @ str_or_None packager @ '' - '' @ md_version md @ ''-1'',
        ''- Initial package'']"

subsection \<open>Editor and packager\<close>

text \<open>
  \<^verbatim>\<open>
  def detect_editor():
      terminal = os.getenv("TERM")
      terminal_is_dumb = terminal is None or terminal == "dumb"
      editor = None
      if not terminal_is_dumb:
          editor = os.getenv("VISUAL")
      if editor is None:
          editor = os.getenv("EDITOR")
      if editor is None:
          if terminal_is_dumb:
              raise Exception("Terminal is dumb, but EDITOR unset")
          else:
              editor = DEFAULT_EDITOR
      return editor
  \<close>
\<close>

definition DEFAULT_EDITOR :: string where
  "DEFAULT_EDITOR = ''vi''"

definition detect_editor :: "(string \<Rightarrow> string option) \<Rightarrow> error + string" where
  "detect_editor getenv =
     (let terminal = getenv ''TERM'';
          terminal_is_dumb = (terminal = None \<or> terminal = Some ''dumb'');
          editor1 = (if \<not> terminal_is_dumb then getenv ''VISUAL'' else None);
          editor2 = (if editor1 = None then getenv ''EDITOR'' else editor1)
      in case editor2 of
           None \<Rightarrow> if terminal_is_dumb
                    then Inl (Exception ''Terminal is dumb, but EDITOR unset'')
                    else Inr DEFAULT_EDITOR
         | Some e \<Rightarrow> Inr e)"

text \<open>
  \<^verbatim>\<open>
  def detect_packager():
      rpmdev_packager = shutil.which("rpmdev-packager")
      if rpmdev_packager is not None:
          return subprocess.check_output(rpmdev_packager, universal_newlines=True).strip()
      git = shutil.which("git")
      if git is not None:
          name = subprocess.check_output([git, "config", "user.name"], ...).strip()
          email = subprocess.check_output([git, "config", "user.email"], ...).strip()
          return "{} <{}>".format(name, email)
      return None
  \<close>
\<close>

definition detect_packager ::
  "(string \<Rightarrow> string option) \<Rightarrow> (string list \<Rightarrow> completed) \<Rightarrow> error + string option" where
  "detect_packager which subprocess =
     (case which ''rpmdev-packager'' of
        Some rpmdev_packager \<Rightarrow>
          (case check_output (subprocess [rpmdev_packager]) of
             Inl e \<Rightarrow> Inl e
           | Inr out \<Rightarrow> Inr (Some (trim out)))
      | None \<Rightarrow>
          (case which ''git'' of
             Some git \<Rightarrow>
               (case check_output (subprocess [git, ''config'', ''user.name'']) of
                  Inl e \<Rightarrow> Inl e
                | Inr n \<Rightarrow>
                    (case check_output (subprocess [git, ''config'', ''user.email'']) of
                       Inl e \<Rightarrow> Inl e
                     | Inr m \<Rightarrow> Inr (Some (trim n @ '' <'' @ trim m @ ''>''))))
           | None \<Rightarrow> Inr None))"

subsection \<open>The main function\<close>

text \<open>
  The further collaborators of the packaged tool: the environment, the search path, the
  other subprocesses, the cache directory, the editing session on the manifest (given
  the editor, it raises or gives the lines of the difference), the metadata parser
  \<^verbatim>\<open>Metadata.from_file\<close>, the day and the word wrapping of the template language.
\<close>

record pkg_world = world +
  getenv :: "string \<Rightarrow> string option"
  which :: "string \<Rightarrow> string option"
  subprocess :: "string list \<Rightarrow> completed"
  CACHEDIR :: string
  cachedir_isdir :: bool
  mkdir :: "error + unit"
  edit_session :: "string \<Rightarrow> error + string list"
  from_file :: "error + metadata"
  today :: string
  wordwrap :: "string \<Rightarrow> string"

record args =
  arg_stdout :: bool
  arg_target :: target
  arg_patch :: bool
  arg_crate :: string
  arg_version :: "string option"

definition print_raw :: "string \<Rightarrow> unit run" where
  "print_raw text s = (Inr (), s\<lparr>printed := printed s @ [text]\<rparr>)"

definition write_file :: "string \<Rightarrow> string \<Rightarrow> unit run" where
  "write_file path text s = (Inr (), s\<lparr>written := written s @ [(path, text)]\<rparr>)"

text \<open>
  The end of \<^verbatim>\<open>main\<close>: the spec goes to the standard output or to the file
  \<^verbatim>\<open>spec_file\<close>, and the patch after it when there is one.
\<close>

definition emit :: "bool \<Rightarrow> string \<Rightarrow> string \<Rightarrow> string option \<Rightarrow> string list \<Rightarrow> unit run" where
  "emit to_stdout spec_file spec_contents patch_file diff =
     (if to_stdout then
        then_do (print (''# '' @ spec_file)) (\<lambda>_.
        then_do (print spec_contents) (\<lambda>_.
        case patch_file of
          None \<Rightarrow> ret ()
        | Some p \<Rightarrow> then_do (print (''# '' @ p)) (\<lambda>_. print_raw (concat diff))))
      else
        then_do (write_file spec_file (spec_contents @ [newline])) (\<lambda>_.
        case patch_file of
          None \<Rightarrow> ret ()
        | Some p \<Rightarrow> write_file p (concat diff)))"

definition read_crate :: "pkg_world \<Rightarrow> string option \<Rightarrow> (string list \<times> metadata) run" where
  "read_crate w editor =
     with_tmpdir (
       then_do (lift (archive_names w)) (\<lambda>names.
       then_do (unpack (cwd w) (tmpdir w) names) (\<lambda>_.
       then_do (assert (toml_isfile w)) (\<lambda>_.
       then_do (case editor of
                  Some e \<Rightarrow> lift (edit_session w e)
                | None \<Rightarrow> ret []) (\<lambda>diff.
       then_do (lift (from_file w)) (\<lambda>md.
       ret (diff, md)))))))"

definition produce :: "pkg_world \<Rightarrow> args \<Rightarrow> string \<Rightarrow> string list \<Rightarrow> metadata \<Rightarrow> unit run" where
  "produce w a version diff md =
     (let patch_file =
            (if arg_patch a \<and> length diff > 0
             then Some (arg_crate a @ ''-'' @ version @ ''-fix-metadata.diff'')
             else None)
      in
      then_do (lift (packaging (arg_crate a) (md_targets md))) (\<lambda>sh.
      then_do (lift (detect_packager (which w) (subprocess w))) (\<lambda>packager.
      emit (arg_stdout a) (spec_basename sh @ ''.spec'')
        (join_with [newline]
           (TEMPLATE (wordwrap w) md patch_file sh (target_flags (arg_target a))
              (today w) packager))
        patch_file diff)))"

definition main :: "pkg_world \<Rightarrow> args \<Rightarrow> unit run" where
  "main w a =
     then_do (if arg_patch a
              then then_do (lift (detect_editor (getenv w))) (\<lambda>e. ret (Some e))
              else ret None) (\<lambda>editor.
     then_do (case arg_version a of None \<Rightarrow> lift (latest_version w) | Some v \<Rightarrow> ret v)
       (\<lambda>version.
     then_do (if \<not> cachedir_isdir w then lift (mkdir w) else ret ()) (\<lambda>_.
     then_do (if \<not> cratef_isfile w
              then then_do (lift (download w))
                     (store (path_join (CACHEDIR w)
                               (arg_crate a @ ''-'' @ version @ ''.crate'')))
              else ret ()) (\<lambda>_.
     then_do (read_crate w editor) (\<lambda>(diff, md).
     produce w a version diff md)))))"

section \<open>The test suite's view of the generator\<close>

text \<open>
  \<^verbatim>\<open>
  def run(*params):
      cmd = [sys.executable, DEPGEN, *params]
      out = subprocess.check_output(cmd, universal_newlines=True)
      return out.split("\n")[:-1]

  def test_provides(toml, expected, cargo_toml):
      assert run("--provides", cargo_toml(toml)) == expected
  \<close>
  with the two manifests \<^verbatim>\<open>name = "hello", version = "0.0.0"\<close> and
  \<^verbatim>\<open>name = "hello", version = "1.2.3", [features] color = []\<close>. The function
  \<^verbatim>\<open>run\<close> is \<^const>\<open>run\<close> above; the generator \<^verbatim>\<open>cargo-deps.py\<close> it runs is
  not among the modelled files.
\<close>

text \<open>
  Modelled from the spec: the manifest model, of which the code is missing. Of the
  spec's model these definitions need the package identity (name and version) and the
  feature map, a feature name with its list of activations.
\<close>

record manifest =
  pkg_name :: string
  pkg_version :: string
  features :: "(string \<times> string list) list"

text \<open>Modelled from the spec: the two operating modes of the normalizer.\<close>

datatype mode = Layered | Flat

text \<open>
  Modelled from the spec: the encoded capability, of which the code is missing. The
  spec gives the strings as \<^verbatim>\<open>crate(<name>[/<feature>])\<close>, followed by an operator
  and a version where there is one.
\<close>

definition capability :: "string \<Rightarrow> string option \<Rightarrow> string" where
  "capability crate feature =
     ''crate('' @ crate @ (case feature of None \<Rightarrow> [] | Some f \<Rightarrow> ''/'' @ f) @ '')''"

text \<open>
  Modelled from the spec: the provide of a crate or of one of its features, of which the
  code is missing: the capability, the operator \<^verbatim>\<open>=\<close> and the version of the
  package, as in \<^verbatim>\<open>crate(hello) = 0.0.0\<close>.
\<close>

definition provide :: "manifest \<Rightarrow> string option \<Rightarrow> string" where
  "provide m feature = capability (pkg_name m) feature @ '' = '' @ pkg_version m"

text \<open>
  Modelled from the spec: the provides list of the normalizer, of which the code is
  missing. The provides are emitted in flat mode only; they are the crate itself and one
  string of the form \<^verbatim>\<open>crate(<crate>/<feature>)\<close> for every locally defined
  feature; every output list is de-duplicated and sorted lexicographically.
\<close>

definition normalize_provides :: "mode \<Rightarrow> manifest \<Rightarrow> string list" where
  "normalize_provides md m =
     (case md of
        Layered \<Rightarrow> []
      | Flat \<Rightarrow>
          sort (remdups (provide m None # map (\<lambda>f. provide m (Some f)) (map fst (features m)))))"

text \<open>
  Modelled from the spec: the generator process asked for \<^verbatim>\<open>--provides\<close> on a
  manifest. It ends with return code 0 and has written the provides, one string on a
  line; \<^verbatim>\<open>run\<close> depends on nothing else.
\<close>

definition provides_process :: "manifest \<Rightarrow> completed" where
  "provides_process m =
     \<lparr>returncode = 0,
      stdout = concat (map (\<lambda>l. l @ [newline]) (normalize_provides Flat m))\<rparr>"

definition hello_0 :: manifest where
  "hello_0 = \<lparr>pkg_name = ''hello'', pkg_version = ''0.0.0'', features = []\<rparr>"

definition hello_color :: manifest where
  "hello_color =
     \<lparr>pkg_name = ''hello'', pkg_version = ''1.2.3'', features = [(''color'', [])]\<rparr>"

section \<open>Notions used in the statements\<close>


text \<open>What a run has printed and written as spec and patch.\<close>

definition outputs :: "sys \<Rightarrow> string list \<times> (string \<times> string) list" where
  "outputs s = (printed s, written s)"

text \<open>The state before a run: nothing unpacked, no generator called, nothing put out.\<close>

definition initial :: sys where
  "initial = \<lparr>tmp_files = [], depgen_calls = [], downloaded = [], printed = [], written = []\<rparr>"


text \<open>A piece of a run that leaves the output alone.\<close>

definition quiet :: "'a run \<Rightarrow> bool" where
  "quiet m = (\<forall>s. outputs (snd (m s)) = outputs s)"

text \<open>
  The statements of \<^verbatim>\<open>main\<close> before the shape of the package is chosen (the
  editor, the version, the cache, the download, the unpacking, the editing session and
  the metadata parser), as one piece: it ends with the version, the lines of the
  difference and the metadata.
\<close>

definition fetch :: "pkg_world \<Rightarrow> args \<Rightarrow> (string \<times> string list \<times> metadata) run" where
  "fetch w a =
     then_do (if arg_patch a
              then then_do (lift (detect_editor (getenv w))) (\<lambda>e. ret (Some e))
              else ret None) (\<lambda>editor.
     then_do (case arg_version a of None \<Rightarrow> lift (latest_version w) | Some v \<Rightarrow> ret v)
       (\<lambda>version.
     then_do (if \<not> cachedir_isdir w then lift (mkdir w) else ret ()) (\<lambda>_.
     then_do (if \<not> cratef_isfile w
              then then_do (lift (download w))
                     (store (path_join (CACHEDIR w)
                               (arg_crate a @ ''-'' @ version @ ''.crate'')))
              else ret ()) (\<lambda>_.
     then_do (read_crate w editor) (\<lambda>(diff, md).
     ret (version, diff, md))))))"

section \<open>Examples\<close>


text \<open>A crate with a binary target only, and its metadata.\<close>

definition libc_dep :: dependency where
  "libc_dep = \<lparr>dep_name = ''libc'', dep_str = ''crate(libc) >= 0.2.0''\<rparr>"

definition hello_bin_md :: metadata where
  "hello_bin_md =
     \<lparr>md_name = ''hello'', md_version = ''0.0.0'', md_description = None,
      md_license = None, md_license_file = None,
      md_targets = [\<lparr>kind = ''bin'', tgt_name = ''hello''\<rparr>],
      md_requires = [libc_dep], md_build_requires = [], md_test_requires = [],
      md_provides = [\<lparr>dep_name = ''hello'', dep_str = ''crate(hello) = 0.0.0''\<rparr>]\<rparr>"


text \<open>A world of the packaged tool in which the crate has no target to package.\<close>

definition no_target_md :: metadata where
  "no_target_md = hello_bin_md\<lparr>md_targets := [\<lparr>kind = ''example'', tgt_name = ''demo''\<rparr>]\<rparr>"

definition no_target_world :: pkg_world where
  "no_target_world =
     \<lparr>latest_version = Inr ''0.0.0'', cratef_isfile = True, download = Inr [],
      archive_names = Inr [''hello-0.0.0/Cargo.toml''], toml_isfile = True,
      cwd = ''/home/u'', tmpdir = ''/tmp/tmpabc'',
      getenv = (\<lambda>v. None), which = (\<lambda>c. None),
      subprocess = (\<lambda>c. \<lparr>returncode = 0, stdout = []\<rparr>),
      CACHEDIR = ''/home/u/.cache/rust2rpm'', cachedir_isdir = True, mkdir = Inr (),
      edit_session = (\<lambda>e. Inr []), from_file = Inr no_target_md,
      today = ''Wed Nov 04 2026'', wordwrap = (\<lambda>d. d)\<rparr>"

definition plain_args :: args where
  "plain_args =
     \<lparr>arg_stdout = True, arg_target = Plain, arg_patch = False, arg_crate = ''hello'',
      arg_version = Some ''0.0.0''\<rparr>"

definition file_args :: args where
  "file_args =
     \<lparr>arg_stdout = False, arg_target = Fedora, arg_patch = False, arg_crate = ''hello'',
      arg_version = Some ''0.0.0''\<rparr>"

text \<open>
  The same crate with a library target, with a procedural macro, and with a binary and a
  library; and a world in which the crate is the library.
\<close>

definition lib_md :: metadata where
  "lib_md = hello_bin_md\<lparr>md_targets := [\<lparr>kind = ''lib'', tgt_name = ''hello''\<rparr>]\<rparr>"

definition macro_md :: metadata where
  "macro_md = hello_bin_md\<lparr>md_targets := [\<lparr>kind = ''proc-macro'', tgt_name = ''hello''\<rparr>]\<rparr>"

definition both_md :: metadata where
  "both_md =
     hello_bin_md\<lparr>md_targets := [\<lparr>kind = ''lib'', tgt_name = ''hello''\<rparr>,
                                  \<lparr>kind = ''example'', tgt_name = ''demo''\<rparr>,
                                  \<lparr>kind = ''bin'', tgt_name = ''hello-cli''\<rparr>],
                  md_license_file := Some ''LICENSE''\<rparr>"

definition lib_world :: pkg_world where
  "lib_world = no_target_world\<lparr>from_file := Inr lib_md\<rparr>"

text \<open>The recipe of that library crate for the target \<^verbatim>\<open>fedora\<close>, line by line.\<close>

definition rust_hello_recipe :: "string list" where
  "rust_hello_recipe =
     [''# Generated by rust2rpm'',
      ''%bcond_without check'',
      ''%global debug_package %{nil}'',
      [],
      ''%global crate hello'',
      [],
      ''Name:           rust-%{crate}'',
      ''Version:        0.0.0'',
      ''Release:        1%{?dist}'',
      ''Summary:        # FIXME'',
      [],
      ''License:        None'',
      ''URL:            https://crates.io/crates/hello'',
      ''Source0:        https://crates.io/api/v1/crates/%{crate}/%{version}/download#/%{crate}-%{version}.crate'',
      [],
      ''ExclusiveArch:  %{rust_arches}'',
      [],
      ''BuildRequires:  rust'',
      ''BuildRequires:  cargo'',
      ''# [dependencies]'',
      ''BuildRequires:  crate(libc) >= 0.2.0'',
      [],
      ''%description'',
      ''%{summary}.'',
      [],
      ''%package        devel'',
      ''Summary:        %{summary}'',
      ''BuildArch:      noarch'',
      [],
      ''%description    devel'',
      ''%{summary}.'',
      [],
      ''This package contains library source intended for building other packages'',
      ''which use %{crate} from crates.io.'',
      [],
      ''%prep'',
      ''%autosetup -n %{crate}-%{version} -p1'',
      ''%cargo_prep'',
      [],
      ''%build'',
      ''%cargo_build'',
      [],
      ''%install'',
      ''%cargo_install'',
      [],
      ''%if %{with check}'',
      ''%check'',
      ''%cargo_test'',
      ''%endif'',
      [],
      ''%files          devel'',
      ''%{cargo_registry}/%{crate}-%{version}/'',
      [],
      ''%changelog'',
      ''* Wed Nov 04 2026 None - 0.0.0-1'',
      ''- Initial package'']"

text \<open>
  A generator process for the test suite: asked for the provides of the manifest file the
  test has written, it answers with those of \<^verbatim>\<open>hello\<close> at \<^verbatim>\<open>0.0.0\<close>; any
  other command line is an error of usage.
\<close>

definition hello_depgen :: "string list \<Rightarrow> completed" where
  "hello_depgen params =
     (if params = [''--provides'', ''/tmp/cargo-deps-q1/Cargo.toml'']
      then provides_process hello_0
      else \<lparr>returncode = 2, stdout = []\<rparr>)"

section \<open>The guard on the archive's member names\<close>

lemma check_names_eq:
  "check_names wd d names =
     (if list_ex (unsafe_name wd d) names then Inl (Exception ''Unsafe filenames!'')
      else Inr ())"
  by (induction names) auto

text \<open>
  C9. Unpacking checks every member name before it extracts anything: if the absolute
  path of some member, joined to the target directory, does not start with the target
  directory, the exception \<^verbatim>\<open>Exception("Unsafe filenames!")\<close> is raised and the
  state is the one before, so no member has been written below the temporary directory.
  Otherwise all members are extracted.
\<close>

theorem unpack_guarded:
  "unpack wd tmp names s =
     (if \<exists>n \<in> set names. \<not> prefix (tmp @ ''/'') (abspath wd (path_join (tmp @ ''/'') n))
      then (Inl (Exception ''Unsafe filenames!''), s)
      else (Inr (), s\<lparr>tmp_files := tmp_files s @ map (path_join (tmp @ ''/'')) names\<rparr>))"
  by (simp add: unpack_def then_do_def lift_def extractall_def check_names_eq
      target_dir_of_def unsafe_name_def list_ex_iff)

lemma unsafe_example:
  "\<exists>n \<in> set [''hello-0.0.0/Cargo.toml'', ''../../etc/passwd''].
      \<not> prefix (''/tmp/tmpabc'' @ ''/'') (abspath ''/home/u'' (path_join (''/tmp/tmpabc'' @ ''/'') n))"
  by code_simp

theorem unpack_guarded_witness:
  "unpack ''/home/u'' ''/tmp/tmpabc'' [''hello-0.0.0/Cargo.toml'', ''../../etc/passwd''] initial
     = (Inl (Exception ''Unsafe filenames!''), initial)"
  using unpack_guarded [of "''/home/u''" "''/tmp/tmpabc''"
      "[''hello-0.0.0/Cargo.toml'', ''../../etc/passwd'']" initial]
  by (simp only: if_P [OF unsafe_example])

section \<open>What the pieces of a run leave alone\<close>

lemma quiet_basic:
  "quiet (ret a)" "quiet (raise e)" "quiet (lift r)" "quiet (store path body)"
  "quiet (assert b)" "quiet (extractall d names)" "quiet (run_depgen gen params)"
  by (simp_all add: quiet_def outputs_def ret_def raise_def lift_def store_def assert_def
      extractall_def run_depgen_def)

lemma quiet_then_do:
  assumes "quiet m" and "\<And>x. quiet (f x)"
  shows "quiet (then_do m f)"
proof -
  have "outputs (snd (then_do m f s)) = outputs s" for s
  proof (cases "m s")
    case (Pair r s1)
    have s1: "outputs s1 = outputs s"
      using assms(1) Pair unfolding quiet_def by (metis snd_conv)
    show ?thesis
    proof (cases r)
      case (Inl e)
      with Pair s1 show ?thesis by (simp add: then_do_def)
    next
      case (Inr a)
      have "outputs (snd (f a s1)) = outputs s1"
        using assms(2) unfolding quiet_def by blast
      with Pair Inr s1 show ?thesis by (simp add: then_do_def)
    qed
  qed
  then show ?thesis unfolding quiet_def by blast
qed

lemma quiet_with_tmpdir: "quiet m \<Longrightarrow> quiet (with_tmpdir m)"
  unfolding quiet_def with_tmpdir_def outputs_def
  by (auto split: prod.splits) (metis fst_conv snd_conv)+

lemma quiet_unpack: "quiet (unpack wd tmp names)"
  unfolding unpack_def by (intro quiet_then_do quiet_basic)

section \<open>The runs of the generator\<close>



section \<open>The packaged tool before it chooses the shape\<close>

lemma quiet_read_crate: "quiet (read_crate w ed)"
  unfolding read_crate_def
  by (intro quiet_with_tmpdir quiet_then_do quiet_basic quiet_unpack)
     (auto split: option.splits intro!: quiet_basic)

lemma quiet_fetch: "quiet (fetch w a)"
  unfolding fetch_def
  by (intro quiet_then_do quiet_basic quiet_read_crate)
     (auto split: option.splits prod.splits intro!: quiet_basic quiet_then_do)

lemma then_do_assoc: "then_do (then_do m f) g = then_do m (\<lambda>x. then_do (f x) g)"
  by (rule ext) (simp add: then_do_def split: prod.splits sum.splits)

lemma then_do_ret: "then_do (ret x) f = f x"
  by (rule ext) (simp add: then_do_def ret_def)

lemma main_fetch:
  "main w a = then_do (fetch w a) (\<lambda>(version, diff, md). produce w a version diff md)"
  unfolding main_def fetch_def
  by (simp add: then_do_assoc then_do_ret split_def)

section \<open>C1: the lists of the two targets\<close>






section \<open>C10: the shape of the package\<close>

lemma some_bin: "bins_of targets \<noteq> [] \<longleftrightarrow> (\<exists>t \<in> set targets. kind t = ''bin'')"
  by (auto simp: bins_of_def filter_empty_conv)

lemma some_lib:
  "libs_of targets \<noteq> [] \<longleftrightarrow> (\<exists>t \<in> set targets. kind t = ''lib'' \<or> kind t = ''proc-macro'')"
  by (auto simp: libs_of_def filter_empty_conv)

lemma packaging_cases:
  "packaging crate targets =
     (if bins_of targets \<noteq> [] then
        Inr \<lparr>spec_basename = crate, include_debug = True, kw_name = ''%{crate}'',
             include_main = True, bins = bins_of targets,
             name_devel = (if libs_of targets = [] then None
                           else Some ''-n rust-%{crate}-devel'')\<rparr>
      else if libs_of targets \<noteq> [] then
        Inr \<lparr>spec_basename = ''rust-'' @ crate, include_debug = False,
             kw_name = ''rust-%{crate}'', include_main = False, bins = [],
             name_devel = Some ''   devel''\<rparr>
      else Inl (ValueError ''No bins and no libs''))"
  by (simp add: packaging_def Let_def)

lemma recipe_end:
  "suffix
     (devel_package_lines ww sh fl md
      @ [''%prep'', ''%autosetup -n %{crate}-%{version} -p1'', ''%cargo_prep'', [],
         ''%build'', ''%cargo_build'', [],
         ''%install'', ''%cargo_install'', [],
         ''%if %{with check}'', ''%check'', ''%cargo_test'', ''%endif'', []]
      @ files_lines sh md
      @ [''%changelog'',
         ''* '' @ date @ '' '' @ str_or_None pk @ '' - '' @ md_version md @ ''-1'',
         ''- Initial package''])
     (TEMPLATE ww md pf sh fl date pk)"
  unfolding TEMPLATE_def
  by (intro suffix_order.refl suffix_appendI)

lemma recipe_name: "''Name:           '' @ kw_name sh \<in> set (TEMPLATE ww md pf sh fl date pk)"
  by (simp add: TEMPLATE_def)

lemma main_after_fetch:
  assumes "fetch w a s = (Inr (version, diff, md), after)"
  shows "main w a s = produce w a version diff md after"
    and "printed after = printed s" and "written after = written s"
proof -
  show "main w a s = produce w a version diff md after"
    using assms by (simp add: main_fetch then_do_def)
  have "outputs (snd (fetch w a s)) = outputs s"
    using quiet_fetch [of w a] unfolding quiet_def by blast
  with assms show "printed after = printed s" and "written after = written s"
    by (simp_all add: outputs_def)
qed

text \<open>
  C10. The targets of the metadata decide the shape, by their kinds. Without a target of
  kind \<^verbatim>\<open>bin\<close>, \<^verbatim>\<open>lib\<close> or \<^verbatim>\<open>proc-macro\<close>, \<^verbatim>\<open>main\<close>, once it has the
  metadata, raises \<^verbatim>\<open>ValueError("No bins and no libs")\<close>, and it has neither printed
  nor written anything. Otherwise exactly one of three shapes is chosen. A binary and no
  library: the package \<^verbatim>\<open>%{crate}\<close> with a main files section that lists the
  binaries, and no subpackage. A binary and a library (or procedural macro): the same
  main package and the subpackage \<^verbatim>\<open>-n rust-%{crate}-devel\<close>. A library (or
  procedural macro) and no binary: the package \<^verbatim>\<open>rust-%{crate}\<close> with the subpackage
  \<^verbatim>\<open>devel\<close> only, no main files section. The recipe carries the name of the package,
  and ends with the block of the subpackage, the build sections, the files sections and
  the changelog; when \<^verbatim>\<open>main\<close> gets as far as the shape and the packager, and is not
  asked for the standard output, it writes this recipe to the file named after the shape.
\<close>

theorem packaging_shape:
  "((\<forall>t \<in> set targets. kind t \<noteq> ''bin'' \<and> kind t \<noteq> ''lib'' \<and> kind t \<noteq> ''proc-macro'')
      \<longrightarrow> packaging crate targets = Inl (ValueError ''No bins and no libs''))
   \<and> ((\<exists>t \<in> set targets. kind t = ''bin'')
       \<and> (\<forall>t \<in> set targets. kind t \<noteq> ''lib'' \<and> kind t \<noteq> ''proc-macro'')
      \<longrightarrow> packaging crate targets =
            Inr \<lparr>spec_basename = crate, include_debug = True, kw_name = ''%{crate}'',
                 include_main = True, bins = filter (\<lambda>t. kind t = ''bin'') targets,
                 name_devel = None\<rparr>)
   \<and> ((\<exists>t \<in> set targets. kind t = ''bin'')
       \<and> (\<exists>t \<in> set targets. kind t = ''lib'' \<or> kind t = ''proc-macro'')
      \<longrightarrow> packaging crate targets =
            Inr \<lparr>spec_basename = crate, include_debug = True, kw_name = ''%{crate}'',
                 include_main = True, bins = filter (\<lambda>t. kind t = ''bin'') targets,
                 name_devel = Some ''-n rust-%{crate}-devel''\<rparr>)
   \<and> ((\<forall>t \<in> set targets. kind t \<noteq> ''bin'')
       \<and> (\<exists>t \<in> set targets. kind t = ''lib'' \<or> kind t = ''proc-macro'')
      \<longrightarrow> packaging crate targets =
            Inr \<lparr>spec_basename = ''rust-'' @ crate, include_debug = False,
                 kw_name = ''rust-%{crate}'', include_main = False, bins = [],
                 name_devel = Some ''   devel''\<rparr>)
   \<and> (fetch w a s = (Inr (version, diff, md), after)
       \<and> (\<forall>t \<in> set (md_targets md).
             kind t \<noteq> ''bin'' \<and> kind t \<noteq> ''lib'' \<and> kind t \<noteq> ''proc-macro'')
      \<longrightarrow> main w a s = (Inl (ValueError ''No bins and no libs''), after)
          \<and> printed after = printed s \<and> written after = written s)
   \<and> (fetch w a s = (Inr (version, diff, md), after)
       \<and> packaging (arg_crate a) (md_targets md) = Inr sh
       \<and> detect_packager (which w) (subprocess w) = Inr pk
       \<and> \<not> arg_patch a \<and> \<not> arg_stdout a
      \<longrightarrow> main w a s =
            (Inr (),
             after\<lparr>written := written s @
                   [(spec_basename sh @ ''.spec'',
                     join_with [newline]
                       (TEMPLATE (wordwrap w) md None sh (target_flags (arg_target a))
                          (today w) pk)
                     @ [newline])]\<rparr>))
   \<and> (name_devel shp = None \<and> include_main shp
      \<longrightarrow> devel_package_lines ww shp fl meta = []
          \<and> files_lines shp meta =
              ''%files'' # license_lines meta
              @ map (\<lambda>b. ''%{_bindir}/'' @ tgt_name b) (bins shp) @ [[]])
   \<and> (name_devel shp = Some nd \<and> include_main shp
      \<longrightarrow> take 3 (devel_package_lines ww shp fl meta) =
            [''%package     '' @ nd, ''Summary:        %{summary}'', ''BuildArch:      noarch'']
          \<and> files_lines shp meta =
              ''%files'' # license_lines meta
              @ map (\<lambda>b. ''%{_bindir}/'' @ tgt_name b) (bins shp)
              @ [[], ''%files       '' @ nd] @ license_lines meta
              @ [''%{cargo_registry}/%{crate}-%{version}/'', []])
   \<and> (name_devel shp = Some nd \<and> \<not> include_main shp
      \<longrightarrow> take 3 (devel_package_lines ww shp fl meta) =
            [''%package     '' @ nd, ''Summary:        %{summary}'', ''BuildArch:      noarch'']
          \<and> files_lines shp meta =
              (''%files       '' @ nd) # license_lines meta
              @ [''%{cargo_registry}/%{crate}-%{version}/'', []])
   \<and> suffix
       (devel_package_lines ww shp fl meta
        @ [''%prep'', ''%autosetup -n %{crate}-%{version} -p1'', ''%cargo_prep'', [],
           ''%build'', ''%cargo_build'', [],
           ''%install'', ''%cargo_install'', [],
           ''%if %{with check}'', ''%check'', ''%cargo_test'', ''%endif'', []]
        @ files_lines shp meta
        @ [''%changelog'',
           ''* '' @ date @ '' '' @ str_or_None pkr @ '' - '' @ md_version meta @ ''-1'',
           ''- Initial package''])
       (TEMPLATE ww meta pf shp fl date pkr)
   \<and> ''Name:           '' @ kw_name shp \<in> set (TEMPLATE ww meta pf shp fl date pkr)"
proof -
  have k1: "(\<forall>t \<in> set targets. kind t \<noteq> ''bin'' \<and> kind t \<noteq> ''lib'' \<and> kind t \<noteq> ''proc-macro'')
      \<longrightarrow> packaging crate targets = Inl (ValueError ''No bins and no libs'')"
    using some_bin [of targets] some_lib [of targets]
    by (auto simp: packaging_cases)
  have k2: "(\<exists>t \<in> set targets. kind t = ''bin'')
       \<and> (\<forall>t \<in> set targets. kind t \<noteq> ''lib'' \<and> kind t \<noteq> ''proc-macro'')
      \<longrightarrow> packaging crate targets =
            Inr \<lparr>spec_basename = crate, include_debug = True, kw_name = ''%{crate}'',
                 include_main = True, bins = filter (\<lambda>t. kind t = ''bin'') targets,
                 name_devel = None\<rparr>"
    using some_bin [of targets] some_lib [of targets]
    by (auto simp: packaging_cases) (simp add: bins_of_def)
  have k3: "(\<exists>t \<in> set targets. kind t = ''bin'')
       \<and> (\<exists>t \<in> set targets. kind t = ''lib'' \<or> kind t = ''proc-macro'')
      \<longrightarrow> packaging crate targets =
            Inr \<lparr>spec_basename = crate, include_debug = True, kw_name = ''%{crate}'',
                 include_main = True, bins = filter (\<lambda>t. kind t = ''bin'') targets,
                 name_devel = Some ''-n rust-%{crate}-devel''\<rparr>"
    using some_bin [of targets] some_lib [of targets]
    by (auto simp: packaging_cases) (simp_all add: bins_of_def)
  have k4: "(\<forall>t \<in> set targets. kind t \<noteq> ''bin'')
       \<and> (\<exists>t \<in> set targets. kind t = ''lib'' \<or> kind t = ''proc-macro'')
      \<longrightarrow> packaging crate targets =
            Inr \<lparr>spec_basename = ''rust-'' @ crate, include_debug = False,
                 kw_name = ''rust-%{crate}'', include_main = False, bins = [],
                 name_devel = Some ''   devel''\<rparr>"
    using some_bin [of targets] some_lib [of targets]
    by (auto simp: packaging_cases)
  have k5: "main w a s = (Inl (ValueError ''No bins and no libs''), after)
          \<and> printed after = printed s \<and> written after = written s"
    if got: "fetch w a s = (Inr (version, diff, md), after)"
      and none: "\<forall>t \<in> set (md_targets md).
             kind t \<noteq> ''bin'' \<and> kind t \<noteq> ''lib'' \<and> kind t \<noteq> ''proc-macro''"
  proof -
    have "packaging (arg_crate a) (md_targets md) = Inl (ValueError ''No bins and no libs'')"
      using none some_bin [of "md_targets md"] some_lib [of "md_targets md"]
      by (auto simp: packaging_cases)
    then have "produce w a version diff md after = (Inl (ValueError ''No bins and no libs''), after)"
      by (simp add: produce_def Let_def then_do_def lift_def)
    with main_after_fetch [OF got] show ?thesis by simp
  qed
  have k6: "main w a s =
            (Inr (),
             after\<lparr>written := written s @
                   [(spec_basename sh @ ''.spec'',
                     join_with [newline]
                       (TEMPLATE (wordwrap w) md None sh (target_flags (arg_target a))
                          (today w) pk)
                     @ [newline])]\<rparr>)"
    if got: "fetch w a s = (Inr (version, diff, md), after)"
      and shape: "packaging (arg_crate a) (md_targets md) = Inr sh"
      and packager: "detect_packager (which w) (subprocess w) = Inr pk"
      and flags: "\<not> arg_patch a" "\<not> arg_stdout a"
  proof -
    have "produce w a version diff md after =
            (Inr (),
             after\<lparr>written := written after @
                   [(spec_basename sh @ ''.spec'',
                     join_with [newline]
                       (TEMPLATE (wordwrap w) md None sh (target_flags (arg_target a))
                          (today w) pk)
                     @ [newline])]\<rparr>)"
      using shape packager flags
      by (simp add: produce_def Let_def then_do_def lift_def emit_def write_file_def ret_def)
    with main_after_fetch [OF got] show ?thesis by simp
  qed
  have k7: "name_devel shp = None \<and> include_main shp
      \<longrightarrow> devel_package_lines ww shp fl meta = []
          \<and> files_lines shp meta =
              ''%files'' # license_lines meta
              @ map (\<lambda>b. ''%{_bindir}/'' @ tgt_name b) (bins shp) @ [[]]"
    by (simp add: devel_package_lines_def files_lines_def)
  have k8: "name_devel shp = Some nd \<and> include_main shp
      \<longrightarrow> take 3 (devel_package_lines ww shp fl meta) =
            [''%package     '' @ nd, ''Summary:        %{summary}'', ''BuildArch:      noarch'']
          \<and> files_lines shp meta =
              ''%files'' # license_lines meta
              @ map (\<lambda>b. ''%{_bindir}/'' @ tgt_name b) (bins shp)
              @ [[], ''%files       '' @ nd] @ license_lines meta
              @ [''%{cargo_registry}/%{crate}-%{version}/'', []]"
    by (simp add: devel_package_lines_def files_lines_def)
  have k9: "name_devel shp = Some nd \<and> \<not> include_main shp
      \<longrightarrow> take 3 (devel_package_lines ww shp fl meta) =
            [''%package     '' @ nd, ''Summary:        %{summary}'', ''BuildArch:      noarch'']
          \<and> files_lines shp meta =
              (''%files       '' @ nd) # license_lines meta
              @ [''%{cargo_registry}/%{crate}-%{version}/'', []]"
    by (simp add: devel_package_lines_def files_lines_def)
  from k5 have k5x: "fetch w a s = (Inr (version, diff, md), after)
       \<and> (\<forall>t \<in> set (md_targets md).
             kind t \<noteq> ''bin'' \<and> kind t \<noteq> ''lib'' \<and> kind t \<noteq> ''proc-macro'')
      \<longrightarrow> main w a s = (Inl (ValueError ''No bins and no libs''), after)
          \<and> printed after = printed s \<and> written after = written s"
    by blast
  from k6 have k6x: "fetch w a s = (Inr (version, diff, md), after)
       \<and> packaging (arg_crate a) (md_targets md) = Inr sh
       \<and> detect_packager (which w) (subprocess w) = Inr pk
       \<and> \<not> arg_patch a \<and> \<not> arg_stdout a
      \<longrightarrow> main w a s =
            (Inr (),
             after\<lparr>written := written s @
                   [(spec_basename sh @ ''.spec'',
                     join_with [newline]
                       (TEMPLATE (wordwrap w) md None sh (target_flags (arg_target a))
                          (today w) pk)
                     @ [newline])]\<rparr>)"
    by blast
  show ?thesis
    by (intro conjI k1 k2 k3 k4 k5x k6x k7 k8 k9 recipe_end recipe_name)
qed

lemma no_target_example:
  "fetch no_target_world plain_args initial = (Inr (''0.0.0'', [], no_target_md), initial)
   \<and> (\<forall>t \<in> set (md_targets no_target_md). kind t \<noteq> ''bin'' \<and> kind t \<noteq> ''lib'' \<and> kind t \<noteq> ''proc-macro'')"
  by code_simp

lemma bin_example:
  "(\<exists>t \<in> set (md_targets hello_bin_md). kind t = ''bin'')
   \<and> (\<forall>t \<in> set (md_targets hello_bin_md). kind t \<noteq> ''lib'' \<and> kind t \<noteq> ''proc-macro'')"
  by code_simp

lemma both_example:
  "(\<exists>t \<in> set (md_targets both_md). kind t = ''bin'')
   \<and> (\<exists>t \<in> set (md_targets both_md). kind t = ''lib'' \<or> kind t = ''proc-macro'')"
  by code_simp

lemma lib_example:
  "(\<forall>t \<in> set (md_targets lib_md). kind t \<noteq> ''bin'')
   \<and> (\<exists>t \<in> set (md_targets lib_md). kind t = ''lib'' \<or> kind t = ''proc-macro'')"
  by code_simp

lemma macro_example:
  "(\<forall>t \<in> set (md_targets macro_md). kind t \<noteq> ''bin'')
   \<and> (\<exists>t \<in> set (md_targets macro_md). kind t = ''lib'' \<or> kind t = ''proc-macro'')"
  by code_simp

lemma bins_example:
  "filter (\<lambda>t. kind t = ''bin'') (md_targets hello_bin_md) = [\<lparr>kind = ''bin'', tgt_name = ''hello''\<rparr>]
   \<and> filter (\<lambda>t. kind t = ''bin'') (md_targets both_md)
       = [\<lparr>kind = ''bin'', tgt_name = ''hello-cli''\<rparr>]
   \<and> license_lines both_md = [''%license LICENSE'']"
  by code_simp

lemma lib_world_example:
  "fetch lib_world file_args initial = (Inr (''0.0.0'', [], lib_md), initial)
   \<and> detect_packager (which lib_world) (subprocess lib_world) = Inr None
   \<and> \<not> arg_patch file_args \<and> \<not> arg_stdout file_args"
  by code_simp

lemma lib_recipe:
  "TEMPLATE (wordwrap lib_world) lib_md None
     \<lparr>spec_basename = ''rust-hello'', include_debug = False,
             kw_name = ''rust-%{crate}'', include_main = False, bins = [],
             name_devel = Some ''   devel''\<rparr>
     (target_flags (arg_target file_args)) (today lib_world) None =
     rust_hello_recipe"
  by code_simp

theorem packaging_shape_witness:
  "main no_target_world plain_args initial = (Inl (ValueError ''No bins and no libs''), initial)
   \<and> packaging ''hello'' (md_targets hello_bin_md) =
        Inr \<lparr>spec_basename = ''hello'', include_debug = True, kw_name = ''%{crate}'',
             include_main = True, bins = [\<lparr>kind = ''bin'', tgt_name = ''hello''\<rparr>],
             name_devel = None\<rparr>
   \<and> packaging ''hello'' (md_targets both_md) =
        Inr \<lparr>spec_basename = ''hello'', include_debug = True, kw_name = ''%{crate}'',
             include_main = True, bins = [\<lparr>kind = ''bin'', tgt_name = ''hello-cli''\<rparr>],
             name_devel = Some ''-n rust-%{crate}-devel''\<rparr>
   \<and> packaging ''hello'' (md_targets lib_md) =
        Inr \<lparr>spec_basename = ''rust-hello'', include_debug = False,
             kw_name = ''rust-%{crate}'', include_main = False, bins = [],
             name_devel = Some ''   devel''\<rparr>
   \<and> packaging ''hello'' (md_targets macro_md) =
        Inr \<lparr>spec_basename = ''rust-hello'', include_debug = False,
             kw_name = ''rust-%{crate}'', include_main = False, bins = [],
             name_devel = Some ''   devel''\<rparr>
   \<and> files_lines
        \<lparr>spec_basename = ''hello'', include_debug = True, kw_name = ''%{crate}'',
             include_main = True, bins = [\<lparr>kind = ''bin'', tgt_name = ''hello-cli''\<rparr>],
             name_devel = Some ''-n rust-%{crate}-devel''\<rparr>
        both_md =
       [''%files'', ''%license LICENSE'', ''%{_bindir}/hello-cli'', [],
        ''%files       -n rust-%{crate}-devel'', ''%license LICENSE'',
        ''%{cargo_registry}/%{crate}-%{version}/'', []]
   \<and> main lib_world file_args initial =
       (Inr (),
        initial\<lparr>written :=
          [(''rust-hello.spec'',
            join_with [newline] rust_hello_recipe @ [newline])]\<rparr>)"
proof -
  have one: "main no_target_world plain_args initial
      = (Inl (ValueError ''No bins and no libs''), initial)"
    using packaging_shape [where w = no_target_world and a = plain_args and s = initial
        and version = "''0.0.0''" and diff = "[]" and md = no_target_md and after = initial,
        THEN conjunct2, THEN conjunct2, THEN conjunct2, THEN conjunct2, THEN conjunct1]
      no_target_example
    by blast
  have "packaging ''hello'' (md_targets hello_bin_md) =
        Inr \<lparr>spec_basename = ''hello'', include_debug = True, kw_name = ''%{crate}'',
             include_main = True,
             bins = filter (\<lambda>t. kind t = ''bin'') (md_targets hello_bin_md),
             name_devel = None\<rparr>"
    using packaging_shape [where targets = "md_targets hello_bin_md" and crate = "''hello''",
        THEN conjunct2, THEN conjunct1]
      bin_example
    by blast
  with bins_example have two: "packaging ''hello'' (md_targets hello_bin_md) =
        Inr \<lparr>spec_basename = ''hello'', include_debug = True, kw_name = ''%{crate}'',
             include_main = True, bins = [\<lparr>kind = ''bin'', tgt_name = ''hello''\<rparr>],
             name_devel = None\<rparr>"
    by simp
  have "packaging ''hello'' (md_targets both_md) =
        Inr \<lparr>spec_basename = ''hello'', include_debug = True, kw_name = ''%{crate}'',
             include_main = True,
             bins = filter (\<lambda>t. kind t = ''bin'') (md_targets both_md),
             name_devel = Some ''-n rust-%{crate}-devel''\<rparr>"
    using packaging_shape [where targets = "md_targets both_md" and crate = "''hello''",
        THEN conjunct2, THEN conjunct2, THEN conjunct1]
      both_example
    by blast
  with bins_example have three: "packaging ''hello'' (md_targets both_md) =
        Inr \<lparr>spec_basename = ''hello'', include_debug = True, kw_name = ''%{crate}'',
             include_main = True, bins = [\<lparr>kind = ''bin'', tgt_name = ''hello-cli''\<rparr>],
             name_devel = Some ''-n rust-%{crate}-devel''\<rparr>"
    by simp
  have four: "packaging ''hello'' (md_targets lib_md) =
        Inr \<lparr>spec_basename = ''rust-hello'', include_debug = False,
             kw_name = ''rust-%{crate}'', include_main = False, bins = [],
             name_devel = Some ''   devel''\<rparr>"
    using packaging_shape [where targets = "md_targets lib_md" and crate = "''hello''",
        THEN conjunct2, THEN conjunct2, THEN conjunct2, THEN conjunct1]
      lib_example
    by simp
  have five: "packaging ''hello'' (md_targets macro_md) =
        Inr \<lparr>spec_basename = ''rust-hello'', include_debug = False,
             kw_name = ''rust-%{crate}'', include_main = False, bins = [],
             name_devel = Some ''   devel''\<rparr>"
    using packaging_shape [where targets = "md_targets macro_md" and crate = "''hello''",
        THEN conjunct2, THEN conjunct2, THEN conjunct2, THEN conjunct1]
      macro_example
    by simp
  have "files_lines
        \<lparr>spec_basename = ''hello'', include_debug = True, kw_name = ''%{crate}'',
             include_main = True, bins = [\<lparr>kind = ''bin'', tgt_name = ''hello-cli''\<rparr>],
             name_devel = Some ''-n rust-%{crate}-devel''\<rparr>
        both_md =
       ''%files'' # license_lines both_md
       @ map (\<lambda>b. ''%{_bindir}/'' @ tgt_name b) [\<lparr>kind = ''bin'', tgt_name = ''hello-cli''\<rparr>]
       @ [[], ''%files       '' @ ''-n rust-%{crate}-devel''] @ license_lines both_md
       @ [''%{cargo_registry}/%{crate}-%{version}/'', []]"
    using packaging_shape [where meta = both_md and nd = "''-n rust-%{crate}-devel''"
        and shp = "\<lparr>spec_basename = ''hello'', include_debug = True, kw_name = ''%{crate}'',
             include_main = True, bins = [\<lparr>kind = ''bin'', tgt_name = ''hello-cli''\<rparr>],
             name_devel = Some ''-n rust-%{crate}-devel''\<rparr>",
        THEN conjunct2, THEN conjunct2, THEN conjunct2, THEN conjunct2, THEN conjunct2, THEN conjunct2, THEN conjunct2, THEN conjunct1]
    by simp
  with bins_example have six: "files_lines
        \<lparr>spec_basename = ''hello'', include_debug = True, kw_name = ''%{crate}'',
             include_main = True, bins = [\<lparr>kind = ''bin'', tgt_name = ''hello-cli''\<rparr>],
             name_devel = Some ''-n rust-%{crate}-devel''\<rparr>
        both_md =
       [''%files'', ''%license LICENSE'', ''%{_bindir}/hello-cli'', [],
        ''%files       -n rust-%{crate}-devel'', ''%license LICENSE'',
        ''%{cargo_registry}/%{crate}-%{version}/'', []]"
    by simp
  have shape_name: "spec_basename
        \<lparr>spec_basename = ''rust-hello'', include_debug = False,
             kw_name = ''rust-%{crate}'', include_main = False, bins = [],
             name_devel = Some ''   devel''\<rparr> @ ''.spec'' = ''rust-hello.spec''"
    by simp
  have nothing_written: "written initial = []"
    by (simp add: initial_def)
  have shape: "packaging (arg_crate file_args) (md_targets lib_md) =
        Inr \<lparr>spec_basename = ''rust-hello'', include_debug = False,
             kw_name = ''rust-%{crate}'', include_main = False, bins = [],
             name_devel = Some ''   devel''\<rparr>"
    using four by (simp add: file_args_def)
  have "main lib_world file_args initial =
       (Inr (),
        initial\<lparr>written := written initial @
          [(spec_basename
              \<lparr>spec_basename = ''rust-hello'', include_debug = False,
             kw_name = ''rust-%{crate}'', include_main = False, bins = [],
             name_devel = Some ''   devel''\<rparr>
            @ ''.spec'',
            join_with [newline]
              (TEMPLATE (wordwrap lib_world) lib_md None
                 \<lparr>spec_basename = ''rust-hello'', include_debug = False,
             kw_name = ''rust-%{crate}'', include_main = False, bins = [],
             name_devel = Some ''   devel''\<rparr>
                 (target_flags (arg_target file_args)) (today lib_world) None)
            @ [newline])]\<rparr>)"
    using packaging_shape [where w = lib_world and a = file_args and s = initial
        and version = "''0.0.0''" and diff = "[]" and md = lib_md and after = initial
        and sh = "\<lparr>spec_basename = ''rust-hello'', include_debug = False,
             kw_name = ''rust-%{crate}'', include_main = False, bins = [],
             name_devel = Some ''   devel''\<rparr>"
        and pk = None,
        THEN conjunct2, THEN conjunct2, THEN conjunct2, THEN conjunct2, THEN conjunct2, THEN conjunct1]
      lib_world_example shape
    by blast
  then have seven: "main lib_world file_args initial =
       (Inr (),
        initial\<lparr>written :=
          [(''rust-hello.spec'',
            join_with [newline] rust_hello_recipe @ [newline])]\<rparr>)"
    by (simp only: lib_recipe shape_name nothing_written append_Nil)
  from one two three four five six seven show ?thesis
    by (intro conjI)
qed

section \<open>C2 and C3: the provides of a crate\<close>

lemma split_on_pieces: "split_on c xs \<noteq> []"
  by (induction xs) (auto split: list.splits)

lemma split_on_line:
  "c \<notin> set l \<Longrightarrow> split_on c (l @ c # rest) = l # split_on c rest"
  using split_on_pieces [of c rest]
  by (induction l) (auto split: list.splits)

lemma split_on_lines:
  "\<forall>l \<in> set ls. c \<notin> set l \<Longrightarrow> split_on c (concat (map (\<lambda>l. l @ [c]) ls)) = ls @ [[]]"
  by (induction ls) (simp_all add: split_on_line)

lemma output_lines_written:
  "\<forall>l \<in> set ls. newline \<notin> set l \<Longrightarrow>
     output_lines (concat (map (\<lambda>l. l @ [newline]) ls)) = ls"
  by (simp add: output_lines_def split_on_lines)

text \<open>
  C2. A manifest without features provides, in flat mode, exactly one string, the
  capability of the crate with its version, \<^verbatim>\<open>crate(<name>) = <version>\<close>; for the
  name \<^verbatim>\<open>hello\<close> and the version \<^verbatim>\<open>0.0.0\<close> this is
  \<^verbatim>\<open>crate(hello) = 0.0.0\<close>. When the generator, run as the test suite runs it with
  \<^verbatim>\<open>--provides\<close> and the manifest file, writes the provides of such a manifest one
  on a line, the test's \<^verbatim>\<open>run\<close> returns this one-element list.
\<close>

theorem provides_hello:
  "(features m = [] \<longrightarrow>
      normalize_provides Flat m = [''crate('' @ pkg_name m @ '') = '' @ pkg_version m])
   \<and> (features m = [] \<and> newline \<notin> set (pkg_name m) \<and> newline \<notin> set (pkg_version m)
        \<and> depgen [''--provides'', toml] = provides_process m
      \<longrightarrow> run depgen [''--provides'', toml]
            = Inr [''crate('' @ pkg_name m @ '') = '' @ pkg_version m])
   \<and> normalize_provides Flat hello_0 = [''crate(hello) = 0.0.0'']"
proof -
  have one: "normalize_provides Flat m = [''crate('' @ pkg_name m @ '') = '' @ pkg_version m]"
    if "features m = []" for m
    using that by (simp add: normalize_provides_def provide_def capability_def)
  have two: "run depgen [''--provides'', toml]
            = Inr [''crate('' @ pkg_name m @ '') = '' @ pkg_version m]"
    if none: "features m = []"
      and name: "newline \<notin> set (pkg_name m)" and version: "newline \<notin> set (pkg_version m)"
      and process: "depgen [''--provides'', toml] = provides_process m"
  proof -
    have "\<forall>l \<in> set (normalize_provides Flat m). newline \<notin> set l"
      using name version by (simp add: one [OF none] newline_def)
    then have "output_lines (stdout (provides_process m)) = normalize_provides Flat m"
      by (simp add: provides_process_def output_lines_written)
    with process show ?thesis
      by (simp add: run_def check_output_def provides_process_def one [OF none])
  qed
  have three: "normalize_provides Flat hello_0 = [''crate(hello) = 0.0.0'']"
    using one [of hello_0] by (simp add: hello_0_def)
  from one two three show ?thesis by blast
qed

lemma hello_example:
  "features hello_0 = [] \<and> newline \<notin> set (pkg_name hello_0)
   \<and> newline \<notin> set (pkg_version hello_0)
   \<and> hello_depgen [''--provides'', ''/tmp/cargo-deps-q1/Cargo.toml''] = provides_process hello_0
   \<and> pkg_name hello_0 = ''hello'' \<and> pkg_version hello_0 = ''0.0.0''"
  by (simp add: hello_0_def hello_depgen_def newline_def)

theorem provides_hello_witness:
  "run hello_depgen [''--provides'', ''/tmp/cargo-deps-q1/Cargo.toml'']
     = Inr [''crate(hello) = 0.0.0'']
   \<and> returncode (hello_depgen [''--requires'', ''/tmp/cargo-deps-q1/Cargo.toml'']) = 2"
proof -
  from provides_hello [of hello_0 hello_depgen "''/tmp/cargo-deps-q1/Cargo.toml''"] hello_example
  have "run hello_depgen [''--provides'', ''/tmp/cargo-deps-q1/Cargo.toml'']
     = Inr [''crate('' @ pkg_name hello_0 @ '') = '' @ pkg_version hello_0]"
    by blast
  with hello_example
  have "run hello_depgen [''--provides'', ''/tmp/cargo-deps-q1/Cargo.toml'']
     = Inr [''crate(hello) = 0.0.0'']"
    by simp
  moreover have "returncode (hello_depgen [''--requires'', ''/tmp/cargo-deps-q1/Cargo.toml'']) = 2"
    by (simp add: hello_depgen_def)
  ultimately show ?thesis by simp
qed

lemma provide_inj: "inj (\<lambda>f. provide m (Some f))"
  by (auto simp: inj_def provide_def capability_def)

lemma provide_base_other: "provide m None \<noteq> provide m (Some f)"
  by (simp add: provide_def capability_def)

text \<open>
  C3. In flat mode the provides are the string of the crate itself and, for each feature
  the manifest defines, exactly one further string \<^verbatim>\<open>crate(<name>/<feature>) =
  <version>\<close>: the list holds these strings and no others, none of them twice; the
  strings of different features differ, and differ from the one of the crate; so with
  \<open>n\<close> features there are \<open>n + 1\<close> provides. For \<^verbatim>\<open>hello\<close> at \<^verbatim>\<open>1.2.3\<close> with
  the feature \<^verbatim>\<open>color\<close> these are \<^verbatim>\<open>crate(hello) = 1.2.3\<close> and
  \<^verbatim>\<open>crate(hello/color) = 1.2.3\<close>.
\<close>

theorem provides_features:
  "set (normalize_provides Flat m) =
     insert (provide m None) ((\<lambda>f. provide m (Some f)) ` fst ` set (features m))
   \<and> distinct (normalize_provides Flat m)
   \<and> sorted (normalize_provides Flat m)
   \<and> inj (\<lambda>f. provide m (Some f))
   \<and> provide m None \<noteq> provide m (Some f)
   \<and> provide m (Some f) = ''crate('' @ pkg_name m @ ''/'' @ f @ '') = '' @ pkg_version m
   \<and> provide m None = ''crate('' @ pkg_name m @ '') = '' @ pkg_version m
   \<and> (distinct (map fst (features m)) \<longrightarrow>
        length (normalize_provides Flat m) = 1 + length (features m))
   \<and> normalize_provides Flat hello_color =
        [''crate(hello) = 1.2.3'', ''crate(hello/color) = 1.2.3'']
   \<and> run (\<lambda>params. provides_process hello_color) [''--provides'', ''Cargo.toml'']
        = Inr [''crate(hello) = 1.2.3'', ''crate(hello/color) = 1.2.3'']"
proof -
  have a: "set (normalize_provides Flat m) =
     insert (provide m None) ((\<lambda>f. provide m (Some f)) ` fst ` set (features m))"
    by (auto simp: normalize_provides_def)
  have b: "distinct (normalize_provides Flat m)"
    by (simp add: normalize_provides_def)
  have c: "sorted (normalize_provides Flat m)"
    by (simp add: normalize_provides_def)
  have d: "provide m (Some f) = ''crate('' @ pkg_name m @ ''/'' @ f @ '') = '' @ pkg_version m"
    by (simp add: provide_def capability_def)
  have e: "provide m None = ''crate('' @ pkg_name m @ '') = '' @ pkg_version m"
    by (simp add: provide_def capability_def)
  have g: "length (normalize_provides Flat m) = 1 + length (features m)"
    if keys: "distinct (map fst (features m))"
  proof -
    have inj: "inj_on (\<lambda>f. provide m (Some f)) (set (map fst (features m)))"
      by (rule inj_on_subset [OF provide_inj subset_UNIV])
    have "distinct (map (\<lambda>f. provide m (Some f)) (map fst (features m))) =
        (distinct (map fst (features m))
         \<and> inj_on (\<lambda>f. provide m (Some f)) (set (map fst (features m))))"
      by (rule distinct_map)
    with keys inj
    have "distinct (map (\<lambda>f. provide m (Some f)) (map fst (features m)))"
      by blast
    moreover have "provide m None \<notin> set (map (\<lambda>f. provide m (Some f)) (map fst (features m)))"
      using provide_base_other [of m] by auto
    ultimately have "distinct (provide m None # map (\<lambda>f. provide m (Some f)) (map fst (features m)))"
      by simp
    then have "remdups (provide m None # map (\<lambda>f. provide m (Some f)) (map fst (features m)))
        = provide m None # map (\<lambda>f. provide m (Some f)) (map fst (features m))"
      by (rule distinct_remdups_id)
    then show ?thesis
      by (simp add: normalize_provides_def)
  qed
  have h: "normalize_provides Flat hello_color =
        [''crate(hello) = 1.2.3'', ''crate(hello/color) = 1.2.3'']"
    by code_simp
  have i: "run (\<lambda>params. provides_process hello_color) [''--provides'', ''Cargo.toml'']
        = Inr [''crate(hello) = 1.2.3'', ''crate(hello/color) = 1.2.3'']"
    by code_simp
  from g have g': "distinct (map fst (features m)) \<longrightarrow>
        length (normalize_provides Flat m) = 1 + length (features m)"
    by blast
  show ?thesis
    by (intro conjI a b c d e g' h i provide_inj provide_base_other)
qed

lemma hello_color_keys: "distinct (map fst (features hello_color))"
  by code_simp

lemma hello_color_length: "1 + length (features hello_color) = 2"
  by code_simp

theorem provides_features_witness:
  "distinct (map fst (features hello_color))
   \<and> length (normalize_provides Flat hello_color) = 2"
proof -
  from provides_features [of hello_color] hello_color_keys
  have "length (normalize_provides Flat hello_color) = 1 + length (features hello_color)"
    by blast
  with hello_color_length hello_color_keys show ?thesis by simp
qed


end
